theory Spec2Isabelle
  imports Complex_Main
begin

section \<open>Data model (models/schemas.py)\<close>

text \<open>
  The enumerations of the schema module become datatypes, the pydantic models become
  records. A Python float is the real number it denotes; its arithmetic is modelled in the
  next section. Time stamps are natural numbers.
\<close>

datatype BodyType = TRIANGLE | RECTANGLE | HOURGLASS | INVERTED_TRIANGLE | OVAL

datatype SkinTone =
  Skin_FAIR | Skin_LIGHT | Skin_MEDIUM | Skin_OLIVE | Skin_TAN | Skin_BROWN | Skin_DARK

datatype OccasionType = CASUAL | BUSINESS | FORMAL | PARTY | GLAMOROUS

datatype WeatherCondition = HOT | WARM | COOL | COLD | RAINY

datatype ItemCategory = TOP | BOTTOM | DRESS | OUTERWEAR | SHOES | ACCESSORY

datatype FitType =
  SLIM | REGULAR | WIDE_LEG | FITTED | STRUCTURED | RELAXED | OVERSIZED | SKINNY
  | STRAIGHT | BOOT_CUT | A_LINE

datatype Color =
  BLACK | WHITE | RED | BLUE | GREEN | YELLOW | PURPLE | PINK | ORANGE | BROWN | GRAY
  | NAVY | BEIGE | CREAM | PATTERNED

record UserInfo =
  user_id :: string
  body_type :: BodyType
  skin_tone :: SkinTone
  height_cm :: real
  weight_kg :: "real option"
  shoulder_cm :: "real option"
  bust_cm :: "real option"
  waist_cm :: "real option"
  hip_cm :: "real option"
  preferences :: "(string \<times> string list) list option"

record OccasionInfo =
  occasion_type :: OccasionType
  weather :: WeatherCondition
  time_of_day :: string
  location :: "string option"
  formality_level :: int

record ClothingItem =
  item_id :: string
  category :: ItemCategory
  subcategory :: string
  color :: Color
  pattern :: "string option"
  fabric :: string
  weight :: string
  fit :: FitType
  brand :: "string option"
  size_label :: string
  attributes :: "(string \<times> (string + string list)) list"
  image_url :: "string option"
  created_at :: nat

record Outfit =
  outfit_id :: string
  items :: "ClothingItem list"
  outfit_occasion_type :: OccasionType
  compatibility_score :: real
  style_notes :: "string list"
  outfit_created_at :: nat

record OutfitRequest =
  user_info :: UserInfo
  occasion_info :: OccasionInfo
  inventory :: "ClothingItem list"
  max_outfits :: int

section \<open>Python floats\<close>

text \<open>
  A Python float is an IEEE 754 binary64 number. It is modelled by the real number it
  denotes, and every arithmetic operation of the source is the exact operation followed by
  rounding to the nearest number with a 53-bit significand, ties to even (\<open>fl\<close>). A
  decimal literal of the source, such as \<open>0.3\<close>, denotes \<open>fl 0.3\<close>, the binary64
  number nearest to it. Comparisons, \<open>abs\<close>, \<open>max\<close> and \<open>min\<close> are exact. The
  exponent range is unbounded here: no value of this program comes near overflow or the
  subnormal range.
\<close>

fun bitlen :: "nat \<Rightarrow> nat" where
  "bitlen n = (if n = 0 then 0 else Suc (bitlen (n div 2)))"

declare bitlen.simps [simp del]

text \<open>The exponent \<open>e\<close> with \<open>2 ^ e \<le> \<bar>x\<bar> < 2 ^ (e + 1)\<close>, for \<open>x \<noteq> 0\<close>.\<close>

definition exponent :: "real \<Rightarrow> int" where
  "exponent x =
     (if 1 \<le> \<bar>x\<bar> then int (bitlen (nat \<lfloor>\<bar>x\<bar>\<rfloor>)) - 1
      else - int (bitlen (nat (\<lceil>1 / \<bar>x\<bar>\<rceil> - 1))))"

definition pow2 :: "int \<Rightarrow> real" where
  "pow2 e = (if 0 \<le> e then 2 ^ nat e else 1 / 2 ^ nat (- e))"

text \<open>Rounding to the nearest integer, ties to the even one.\<close>

definition rne :: "real \<Rightarrow> int" where
  "rne y =
     (if y - of_int \<lfloor>y\<rfloor> < 1 / 2 then \<lfloor>y\<rfloor>
      else if 1 / 2 < y - of_int \<lfloor>y\<rfloor> then \<lfloor>y\<rfloor> + 1
      else if even \<lfloor>y\<rfloor> then \<lfloor>y\<rfloor>
      else \<lfloor>y\<rfloor> + 1)"

definition fl :: "real \<Rightarrow> real" where
  "fl x =
     (if x = 0 then 0
      else of_int (rne (x / pow2 (exponent x - 52))) * pow2 (exponent x - 52))"

definition fadd :: "real \<Rightarrow> real \<Rightarrow> real" where
  "fadd x y = fl (x + y)"

definition fsub :: "real \<Rightarrow> real \<Rightarrow> real" where
  "fsub x y = fl (x - y)"

definition fmul :: "real \<Rightarrow> real \<Rightarrow> real" where
  "fmul x y = fl (x * y)"

definition fdiv :: "real \<Rightarrow> real \<Rightarrow> real" where
  "fdiv x y = fl (x / y)"

section \<open>Rule engine (services/rule_engine.py)\<close>

text \<open>
  A rule dictionary has a fixed set of possible keys with values of different types, so
  it is a record of optional fields: a field is \<open>None\<close> when the key is not in the
  dictionary. The empty dictionary \<open>{}\<close> has every field \<open>None\<close>. The nested
  dictionaries keyed by \<open>"top"\<close> and \<open>"bottom"\<close> are association lists.
\<close>

record body_rules =
  top_fit :: "FitType list option"
  bottom_fit :: "FitType list option"
  dress_fit :: "FitType list option"
  recommended_colors :: "(string \<times> Color list) list option"
  avoid_fits :: "(string \<times> FitType list) list option"
  fabric_weight :: "(string \<times> string list) list option"

record occasion_rules_entry =
  allowed_fits :: "FitType list option"
  fabric_weights :: "string list option"
  color_intensity :: "string option"
  pattern_intensity :: "string option"

definition empty_body_rules :: body_rules where
  "empty_body_rules =
     \<lparr>top_fit = None, bottom_fit = None, dress_fit = None, recommended_colors = None,
      avoid_fits = None, fabric_weight = None\<rparr>"

definition empty_occasion_rules :: occasion_rules_entry where
  "empty_occasion_rules =
     \<lparr>allowed_fits = None, fabric_weights = None, color_intensity = None,
      pattern_intensity = None\<rparr>"

text \<open>\<open>d.get(k, default)\<close> on an association list.\<close>

definition dict_get :: "('k \<times> 'v) list \<Rightarrow> 'k \<Rightarrow> 'v \<Rightarrow> 'v" where
  "dict_get d k dflt = (case map_of d k of None \<Rightarrow> dflt | Some v \<Rightarrow> v)"

fun body_type_rules :: "BodyType \<Rightarrow> body_rules option" where
  "body_type_rules TRIANGLE = Some
     \<lparr>top_fit = Some [FITTED, STRUCTURED],
      bottom_fit = Some [STRAIGHT, BOOT_CUT],
      dress_fit = Some [A_LINE],
      recommended_colors = Some
        [(''top'', [PATTERNED, RED, BLUE, GREEN]), (''bottom'', [BLACK, NAVY, GRAY, BROWN])],
      avoid_fits = Some [(''top'', [OVERSIZED, RELAXED]), (''bottom'', [SKINNY])],
      fabric_weight = Some [(''top'', [''light'', ''medium'']), (''bottom'', [''medium''])]\<rparr>"
| "body_type_rules INVERTED_TRIANGLE = Some
     \<lparr>top_fit = Some [RELAXED],
      bottom_fit = Some [A_LINE, WIDE_LEG],
      dress_fit = Some [A_LINE],
      recommended_colors = Some
        [(''top'', [BLACK, NAVY, GRAY]), (''bottom'', [PATTERNED, RED, BLUE])],
      avoid_fits = Some [(''top'', [STRUCTURED]), (''bottom'', [SKINNY, STRAIGHT])],
      fabric_weight = Some [(''top'', [''light'']), (''bottom'', [''medium'', ''heavy''])]\<rparr>"
| "body_type_rules RECTANGLE = Some
     \<lparr>top_fit = Some [FITTED, STRUCTURED],
      bottom_fit = Some [A_LINE, BOOT_CUT],
      dress_fit = Some [A_LINE],
      recommended_colors = Some
        [(''top'', [PATTERNED, RED, BLUE]), (''bottom'', [PATTERNED, GREEN, PURPLE])],
      avoid_fits = Some [(''top'', [OVERSIZED]), (''bottom'', [SKINNY])],
      fabric_weight = Some [(''top'', [''light'', ''medium'']), (''bottom'', [''medium''])]\<rparr>"
| "body_type_rules HOURGLASS = None"
| "body_type_rules OVAL = None"

fun occasion_rules :: "OccasionType \<Rightarrow> occasion_rules_entry option" where
  "occasion_rules CASUAL = Some
     \<lparr>allowed_fits = Some [RELAXED, STRAIGHT],
      fabric_weights = Some [''light'', ''medium''],
      color_intensity = Some ''medium'', pattern_intensity = Some ''medium''\<rparr>"
| "occasion_rules BUSINESS = Some
     \<lparr>allowed_fits = Some [STRUCTURED, FITTED],
      fabric_weights = Some [''medium''],
      color_intensity = Some ''low'', pattern_intensity = Some ''low''\<rparr>"
| "occasion_rules PARTY = Some
     \<lparr>allowed_fits = Some [FITTED, STRUCTURED],
      fabric_weights = Some [''light'', ''medium''],
      color_intensity = Some ''high'', pattern_intensity = Some ''high''\<rparr>"
| "occasion_rules FORMAL = None"
| "occasion_rules GLAMOROUS = None"

text \<open>\<open>_is_item_compatible\<close>: every early \<open>return False\<close> is one branch, in source order.\<close>

definition is_item_compatible :: "ClothingItem \<Rightarrow> body_rules \<Rightarrow> bool" where
  "is_item_compatible item rules =
     (if category item \<in> set [TOP, DRESS, OUTERWEAR] \<and>
         (case avoid_fits rules of None \<Rightarrow> False
          | Some af \<Rightarrow> fit item \<in> set (dict_get af ''top'' []))
      then False
      else if category item \<in> set [TOP, DRESS, OUTERWEAR] \<and>
         (case top_fit rules of None \<Rightarrow> False | Some tf \<Rightarrow> fit item \<notin> set tf)
      then False
      else if category item = BOTTOM \<and>
         (case avoid_fits rules of None \<Rightarrow> False
          | Some af \<Rightarrow> fit item \<in> set (dict_get af ''bottom'' []))
      then False
      else if category item = BOTTOM \<and>
         (case bottom_fit rules of None \<Rightarrow> False | Some bf \<Rightarrow> fit item \<notin> set bf)
      then False
      else if (case recommended_colors rules of None \<Rightarrow> False
          | Some rc \<Rightarrow>
              (if category item \<in> set [TOP, DRESS, OUTERWEAR]
               then color item \<notin> set (dict_get rc ''top'' [])
               else if category item = BOTTOM
               then color item \<notin> set (dict_get rc ''bottom'' [])
               else False))
      then False
      else if (case fabric_weight rules of None \<Rightarrow> False
          | Some fw \<Rightarrow>
              (if category item \<in> set [TOP, DRESS]
               then weight item \<notin> set (dict_get fw ''top'' [])
               else if category item = BOTTOM
               then weight item \<notin> set (dict_get fw ''bottom'' [])
               else False))
      then False
      else True)"

text \<open>
  \<open>filter_by_body_type\<close>: the \<open>for\<close> loop appending to \<open>filtered_items\<close> is a fold
  over the items, starting from the empty list.
\<close>

definition filter_by_body_type :: "ClothingItem list \<Rightarrow> BodyType \<Rightarrow> ClothingItem list" where
  "filter_by_body_type items_in bt =
     (let rules = (case body_type_rules bt of None \<Rightarrow> empty_body_rules | Some r \<Rightarrow> r)
      in fold (\<lambda>item filtered_items.
                 if is_item_compatible item rules then filtered_items @ [item]
                 else filtered_items) items_in [])"

definition is_item_occasion_compatible ::
  "ClothingItem \<Rightarrow> occasion_rules_entry \<Rightarrow> OccasionInfo \<Rightarrow> bool" where
  "is_item_occasion_compatible item rules occasion =
     (if (case allowed_fits rules of None \<Rightarrow> False | Some af \<Rightarrow> fit item \<notin> set af)
      then False
      else if weather occasion = HOT \<and> weight item = ''heavy'' then False
      else if weather occasion = COLD \<and> weight item = ''light'' then False
      else if occasion_type occasion = BUSINESS \<and> category item = TOP \<and>
              subcategory item \<notin> set [''shirt'', ''blouse'', ''button-down'']
      then False
      else True)"

definition filter_by_occasion :: "ClothingItem list \<Rightarrow> OccasionInfo \<Rightarrow> ClothingItem list" where
  "filter_by_occasion items_in occasion =
     (let rules = (case occasion_rules (occasion_type occasion) of
                     None \<Rightarrow> empty_occasion_rules | Some r \<Rightarrow> r)
      in fold (\<lambda>item filtered_items.
                 if is_item_occasion_compatible item rules occasion
                 then filtered_items @ [item] else filtered_items) items_in [])"

text \<open>
  The \<open>.value\<close> of the two enumerations that are turned into text. The f-strings of
  \<open>score_outfit_proportions\<close> render an enumeration member through these names.
\<close>

fun color_value :: "Color \<Rightarrow> string" where
  "color_value BLACK = ''black''"
| "color_value WHITE = ''white''"
| "color_value RED = ''red''"
| "color_value BLUE = ''blue''"
| "color_value GREEN = ''green''"
| "color_value YELLOW = ''yellow''"
| "color_value PURPLE = ''purple''"
| "color_value PINK = ''pink''"
| "color_value ORANGE = ''orange''"
| "color_value BROWN = ''brown''"
| "color_value GRAY = ''gray''"
| "color_value NAVY = ''navy''"
| "color_value BEIGE = ''beige''"
| "color_value CREAM = ''cream''"
| "color_value PATTERNED = ''patterned''"

fun category_value :: "ItemCategory \<Rightarrow> string" where
  "category_value TOP = ''top''"
| "category_value BOTTOM = ''bottom''"
| "category_value DRESS = ''dress''"
| "category_value OUTERWEAR = ''outerwear''"
| "category_value SHOES = ''shoes''"
| "category_value ACCESSORY = ''accessory''"

text \<open>Truth value of an \<open>Optional[str]\<close>: \<open>None\<close> and the empty string are false.\<close>

definition truthy :: "string option \<Rightarrow> bool" where
  "truthy p = (case p of None \<Rightarrow> False | Some s \<Rightarrow> s \<noteq> [])"

definition estimate_volume :: "ClothingItem \<Rightarrow> UserInfo \<Rightarrow> real" where
  "estimate_volume item user =
     (let volume = fl 0.5;
          volume = (if fit item \<in> set [OVERSIZED, RELAXED] then fadd volume (fl 0.3)
                    else if fit item \<in> set [FITTED, SKINNY] then fsub volume (fl 0.3)
                    else volume);
          volume = (if weight item = ''heavy'' then fadd volume (fl 0.2)
                    else if weight item = ''light'' then fsub volume (fl 0.2)
                    else volume)
      in max (fl 0.1) (min (fl 0.9) volume))"

text \<open>The set \<open>elements\<close> built by the first loop of \<open>score_outfit_proportions\<close>.\<close>

definition outfit_elements :: "ClothingItem list \<Rightarrow> string set" where
  "outfit_elements outfit =
     fold (\<lambda>item elements.
        let elements = (if truthy (pattern item)
                        then insert (''pattern_'' @ the (pattern item)) elements
                        else elements);
            elements = (if color item \<noteq> PATTERNED
                        then insert (''color_'' @ color_value (color item)) elements
                        else elements)
        in insert (''category_'' @ category_value (category item)) elements) outfit {}"

definition score_outfit_proportions :: "ClothingItem list \<Rightarrow> UserInfo \<Rightarrow> real" where
  "score_outfit_proportions outfit user =
     (let score = fl 1.0;
          elements = outfit_elements outfit;
          score = (if card elements < 3 then fmul score (fl 0.7) else score);
          tops = filter (\<lambda>item. category item \<in> set [TOP, DRESS, OUTERWEAR]) outfit;
          bottoms = filter (\<lambda>item. category item = BOTTOM) outfit
      in if tops \<noteq> [] \<and> bottoms \<noteq> [] then
           (let top_volume = estimate_volume (hd tops) user;
                bottom_volume = estimate_volume (hd bottoms) user
            in if top_volume > fl 0.7 \<and> bottom_volume > fl 0.7 then fmul score (fl 0.6)
               else if \<bar>fsub top_volume bottom_volume\<bar> > fl 0.3 then fmul score (fl 1.2)
               else score)
         else score)"

section \<open>Outfit generator (services/outfit_generator.py)\<close>

text \<open>
  Exceptions are values: a function that can raise returns \<open>py_error + 'a\<close>, and
  \<open>ebind\<close> propagates the error of the first computation.
\<close>

datatype py_error = IndexError | ValueError

definition ebind :: "'e + 'a \<Rightarrow> ('a \<Rightarrow> 'e + 'b) \<Rightarrow> 'e + 'b" where
  "ebind m f = (case m of Inl e \<Rightarrow> Inl e | Inr x \<Rightarrow> f x)"

text \<open>
  The random source. One \<open>draw\<close> holds the outcome of every call of the module
  \<open>random\<close> that one attempt of the generation loop can make, and the clock reading of
  that attempt; a sequence of random choices is a function from the attempt number to its
  draw. Each call's outcome is independent of the others, so every behaviour of the
  generator is the behaviour under some such function.
\<close>

record draw =
  u_dress :: real
  k_dress :: nat
  k_top :: nat
  k_bottom :: nat
  u_outerwear :: real
  k_outerwear :: nat
  k_shoes :: nat
  n_accessories :: nat
  k_sample :: "nat list"
  clock :: nat

text \<open>\<open>random.choice\<close> raises IndexError on an empty sequence.\<close>

definition random_choice :: "'a list \<Rightarrow> nat \<Rightarrow> py_error + 'a" where
  "random_choice xs k = (if xs = [] then Inl IndexError else Inr (xs ! (k mod length xs)))"

definition random_randint :: "nat \<Rightarrow> nat \<Rightarrow> nat \<Rightarrow> nat" where
  "random_randint a b k = a + k mod (b - a + 1)"

text \<open>
  \<open>random.sample(xs, n)\<close> picks \<open>n\<close> distinct positions, in any order: each pick
  removes the chosen position from the pool. It raises ValueError when \<open>n\<close> exceeds
  the length.
\<close>

fun sample_pick :: "'a list \<Rightarrow> nat \<Rightarrow> nat list \<Rightarrow> 'a list" where
  "sample_pick xs 0 ks = []"
| "sample_pick xs (Suc n) ks =
     (if xs = [] then []
      else let i = (case ks of [] \<Rightarrow> 0 | k # _ \<Rightarrow> k) mod length xs
           in xs ! i # sample_pick (take i xs @ drop (Suc i) xs) n (tl ks))"

definition random_sample :: "'a list \<Rightarrow> nat \<Rightarrow> nat list \<Rightarrow> py_error + 'a list" where
  "random_sample xs n ks = (if length xs < n then Inl ValueError else Inr (sample_pick xs n ks))"

definition max_generation_attempts :: nat where
  "max_generation_attempts = 1000"

record categorized =
  tops :: "ClothingItem list"
  bottoms :: "ClothingItem list"
  dresses :: "ClothingItem list"
  outerwear :: "ClothingItem list"
  shoes :: "ClothingItem list"
  accessories :: "ClothingItem list"

definition categorize_items :: "ClothingItem list \<Rightarrow> categorized" where
  "categorize_items items_in =
     fold (\<lambda>item c.
        if category item = TOP then c\<lparr>tops := tops c @ [item]\<rparr>
        else if category item = BOTTOM then c\<lparr>bottoms := bottoms c @ [item]\<rparr>
        else if category item = DRESS then c\<lparr>dresses := dresses c @ [item]\<rparr>
        else if category item = OUTERWEAR then c\<lparr>outerwear := outerwear c @ [item]\<rparr>
        else if category item = SHOES then c\<lparr>shoes := shoes c @ [item]\<rparr>
        else if category item = ACCESSORY then c\<lparr>accessories := accessories c @ [item]\<rparr>
        else c)
       items_in
       \<lparr>tops = [], bottoms = [], dresses = [], outerwear = [], shoes = [], accessories = []\<rparr>"

text \<open>\<open>_create_candidate_outfit\<close>: \<open>Inr None\<close> is the \<open>return None\<close> of the source.\<close>

definition create_candidate_outfit ::
  "categorized \<Rightarrow> UserInfo \<Rightarrow> draw \<Rightarrow> py_error + ClothingItem list option" where
  "create_candidate_outfit cat user d =
     (let use_dress = (u_dress d < fl 0.3 \<and> dresses cat \<noteq> []) in
      ebind
        (if use_dress then
           ebind (random_choice (dresses cat) (k_dress d)) (\<lambda>dress. Inr (Some [dress]))
         else if tops cat \<noteq> [] \<and> bottoms cat \<noteq> [] then
           ebind (random_choice (tops cat) (k_top d)) (\<lambda>top_item.
           ebind (random_choice (bottoms cat) (k_bottom d)) (\<lambda>bottom_item.
           Inr (Some [top_item, bottom_item])))
         else Inr None)
        (\<lambda>base. case base of
           None \<Rightarrow> Inr None
         | Some candidate \<Rightarrow>
             ebind
               (if outerwear cat \<noteq> [] \<and> u_outerwear d < fl 0.4 then
                  ebind (random_choice (outerwear cat) (k_outerwear d))
                    (\<lambda>ow. Inr (candidate @ [ow]))
                else Inr candidate) (\<lambda>candidate.
             ebind
               (if shoes cat \<noteq> [] then
                  ebind (random_choice (shoes cat) (k_shoes d)) (\<lambda>sh. Inr (candidate @ [sh]))
                else Inr candidate) (\<lambda>candidate.
             ebind
               (if accessories cat \<noteq> [] then
                  (let num_accessories = random_randint 1 2 (n_accessories d) in
                   ebind (random_sample (accessories cat)
                            (min num_accessories (length (accessories cat))) (k_sample d))
                     (\<lambda>accs. Inr (candidate @ accs)))
                else Inr candidate) (\<lambda>candidate.
             Inr (Some candidate))))))"

definition is_valid_outfit :: "ClothingItem list \<Rightarrow> OutfitRequest \<Rightarrow> bool" where
  "is_valid_outfit outfit request =
     (if outfit = [] then False
      else let categories = category ` set outfit
           in if (TOP \<in> categories \<and> BOTTOM \<in> categories) \<or> DRESS \<in> categories
              then True else False)"

fun formality_map :: "FitType \<Rightarrow> real option" where
  "formality_map STRUCTURED = Some (fl 0.9)"
| "formality_map FITTED = Some (fl 0.8)"
| "formality_map STRAIGHT = Some (fl 0.6)"
| "formality_map RELAXED = Some (fl 0.4)"
| "formality_map OVERSIZED = Some (fl 0.3)"
| "formality_map SKINNY = Some (fl 0.5)"
| "formality_map BOOT_CUT = Some (fl 0.5)"
| "formality_map A_LINE = Some (fl 0.7)"
| "formality_map _ = None"

definition estimate_formality_level :: "ClothingItem \<Rightarrow> real" where
  "estimate_formality_level item =
     (let base_formality = (case formality_map (fit item) of None \<Rightarrow> fl 0.5 | Some v \<Rightarrow> v);
          base_formality =
            (if category item \<in> set [DRESS, OUTERWEAR] then fadd base_formality (fl 0.1)
             else if category item = ACCESSORY then fsub base_formality (fl 0.1)
             else base_formality)
      in max (fl 0.1) (min (fl 0.9) base_formality))"

definition estimate_color_intensity :: "Color \<Rightarrow> real" where
  "estimate_color_intensity c =
     (if c \<in> set [RED, BLUE, GREEN, PURPLE, PINK, ORANGE] then fl 0.8
      else if c \<in> set [BLACK, WHITE, GRAY, NAVY, BEIGE, CREAM, BROWN] then fl 0.3
      else fl 0.5)"

record item_dict =
  d_color :: string
  d_category :: string
  d_pattern :: string
  d_formality_level :: real
  d_color_intensity :: real
  d_pattern_intensity :: real

definition item_to_dict :: "ClothingItem \<Rightarrow> item_dict" where
  "item_to_dict item =
     \<lparr>d_color = color_value (color item),
      d_category = category_value (category item),
      d_pattern = (if truthy (pattern item) then the (pattern item) else ''none''),
      d_formality_level = estimate_formality_level item,
      d_color_intensity = estimate_color_intensity (color item),
      d_pattern_intensity = (if truthy (pattern item) then fl 0.8 else fl 0.2)\<rparr>"

text \<open>
  \<open>_predict_ml_compatibility\<close>: \<open>max\<close> and \<open>min\<close> of an empty list raise
  ValueError.
\<close>

definition predict_ml_compatibility :: "item_dict list \<Rightarrow> py_error + real" where
  "predict_ml_compatibility items_in =
     (let colors = map d_color items_in;
          color_score = (if card (set colors) \<le> 2 then fl 0.9 else fl 0.7);
          categories = map d_category items_in;
          category_score = (if length categories \<ge> 3 then fl 0.9 else fl 0.8);
          formality_levels = map d_formality_level items_in
      in if formality_levels = [] then Inl ValueError
         else let formality_variance =
                    fsub (Max (set formality_levels)) (Min (set formality_levels));
                  formality_score = (if formality_variance < fl 0.3 then fl 0.8 else fl 0.6)
              in Inr (fdiv (fadd (fadd color_score category_score) formality_score) 3))"

definition generate_style_notes :: "ClothingItem list \<Rightarrow> UserInfo \<Rightarrow> string list" where
  "generate_style_notes outfit user =
     (let notes = [];
          notes =
            (if body_type user = TRIANGLE then notes @
               [''This outfit helps balance your proportions with emphasis on the upper body'']
             else if body_type user = INVERTED_TRIANGLE then notes @
               [''This outfit creates balance by adding volume to the lower body'']
             else if body_type user = RECTANGLE then notes @
               [''This outfit creates the illusion of curves with strategic tailoring'']
             else notes);
          colors = map color (filter (\<lambda>item. color item \<noteq> PATTERNED) outfit)
      in if card (set colors) \<le> 2
         then notes @ [''Monochromatic color scheme creates a sleek, elongated look'']
         else notes @ [''Well-coordinated color palette with visual interest''])"

text \<open>Decimal rendering of a natural number, for the identifier \<open>outfit_<n>\<close>.\<close>

fun str_of_nat :: "nat \<Rightarrow> string" where
  "str_of_nat n =
     (if n < 10 then [''0123456789'' ! n]
      else str_of_nat (n div 10) @ [''0123456789'' ! (n mod 10)])"

declare str_of_nat.simps [simp del]

text \<open>
  The \<open>while\<close> loop of \<open>generate_outfits\<close>, with the list \<open>outfits\<close> and the counter
  \<open>attempt\<close> as its state. It returns both, so that the number of attempts made can be
  stated.
\<close>

function generate_loop ::
  "categorized \<Rightarrow> OutfitRequest \<Rightarrow> (nat \<Rightarrow> draw) \<Rightarrow> Outfit list \<Rightarrow> nat
     \<Rightarrow> py_error + (Outfit list \<times> nat)" where
  "generate_loop cat request rnd outfits attempt =
     (if int (length outfits) < max_outfits request \<and> attempt < max_generation_attempts then
        (let attempt = attempt + 1 in
         ebind (create_candidate_outfit cat (user_info request) (rnd attempt))
           (\<lambda>candidate.
              if candidate \<noteq> None \<and> the candidate \<noteq> [] \<and>
                 is_valid_outfit (the candidate) request
              then
                (let rule_score = score_outfit_proportions (the candidate) (user_info request) in
                 ebind (predict_ml_compatibility (map item_to_dict (the candidate)))
                   (\<lambda>ml_score.
                      let final_score = fadd (fmul (fl 0.6) rule_score) (fmul (fl 0.4) ml_score);
                          outfit =
                            \<lparr>outfit_id = ''outfit_'' @ str_of_nat (length outfits + 1),
                             items = the candidate,
                             outfit_occasion_type = occasion_type (occasion_info request),
                             compatibility_score = final_score,
                             style_notes =
                               generate_style_notes (the candidate) (user_info request),
                             outfit_created_at = clock (rnd attempt)\<rparr>
                      in generate_loop cat request rnd (outfits @ [outfit]) attempt))
              else generate_loop cat request rnd outfits attempt))
      else Inr (outfits, attempt))"
  by pat_completeness auto
termination
  by (relation "measure (\<lambda>(cat, request, rnd, outfits, attempt).
        max_generation_attempts - attempt)") auto

declare generate_loop.simps [simp del]

text \<open>\<open>xs[:m]\<close> for an integer \<open>m\<close>: a negative bound counts from the end.\<close>

definition slice_to :: "'a list \<Rightarrow> int \<Rightarrow> 'a list" where
  "slice_to xs m = (if 0 \<le> m then take (nat m) xs else take (nat (int (length xs) + m)) xs)"

text \<open>
  \<open>generate_outfits\<close>. \<open>list.sort(key=..., reverse=True)\<close> is a stable sort into
  descending key order: it is the stable ascending sort on the negated key.
\<close>

definition generate_outfits :: "OutfitRequest \<Rightarrow> (nat \<Rightarrow> draw) \<Rightarrow> py_error + Outfit list" where
  "generate_outfits request rnd =
     (let filtered_items =
            filter_by_body_type (inventory request) (body_type (user_info request));
          filtered_items = filter_by_occasion filtered_items (occasion_info request);
          categorized_items = categorize_items filtered_items
      in ebind (generate_loop categorized_items request rnd [] 0)
           (\<lambda>(outfits, attempt).
              Inr (slice_to (sort_key (\<lambda>x. - compatibility_score x) outfits)
                     (max_outfits request))))"

section \<open>The specification's statements as definitions\<close>

subsection \<open>Body-type filter\<close>

datatype role = TopRole | BottomRole

definition role_key :: "role \<Rightarrow> string" where
  "role_key ro = (case ro of TopRole \<Rightarrow> ''top'' | BottomRole \<Rightarrow> ''bottom'')"

text \<open>
  The role of a category as the specification gives it: top, dress and outerwear share the
  top role, bottom is its own role, shoes and accessories have none.
\<close>

definition shared_role :: "ItemCategory \<Rightarrow> role option" where
  "shared_role c =
     (if c = TOP \<or> c = DRESS \<or> c = OUTERWEAR then Some TopRole
      else if c = BOTTOM then Some BottomRole
      else None)"

text \<open>The role assignment in which outerwear has no role.\<close>

definition role_without_outerwear :: "ItemCategory \<Rightarrow> role option" where
  "role_without_outerwear c =
     (if c = TOP \<or> c = DRESS then Some TopRole
      else if c = BOTTOM then Some BottomRole
      else None)"

text \<open>What a table entry specifies for a role; \<open>None\<close> where it specifies nothing.\<close>

definition avoid_list :: "body_rules \<Rightarrow> role \<Rightarrow> FitType list" where
  "avoid_list r ro = (case avoid_fits r of None \<Rightarrow> [] | Some d \<Rightarrow> dict_get d (role_key ro) [])"

definition permitted_fit_list :: "body_rules \<Rightarrow> role \<Rightarrow> FitType list option" where
  "permitted_fit_list r ro = (case ro of TopRole \<Rightarrow> top_fit r | BottomRole \<Rightarrow> bottom_fit r)"

definition recommended_color_set :: "body_rules \<Rightarrow> role \<Rightarrow> Color list option" where
  "recommended_color_set r ro =
     (case recommended_colors r of None \<Rightarrow> None | Some d \<Rightarrow> Some (dict_get d (role_key ro) []))"

definition permitted_weight_set :: "body_rules \<Rightarrow> role \<Rightarrow> string list option" where
  "permitted_weight_set r ro =
     (case fabric_weight r of None \<Rightarrow> None | Some d \<Rightarrow> Some (dict_get d (role_key ro) []))"

text \<open>
  The four checks of the specification. The first three use the shared role; the role
  assignment used by the fabric-weight check is a parameter.
\<close>

definition body_type_keep ::
  "(ItemCategory \<Rightarrow> role option) \<Rightarrow> BodyType \<Rightarrow> ClothingItem \<Rightarrow> bool" where
  "body_type_keep weight_role bt item =
     (case body_type_rules bt of
        None \<Rightarrow> True
      | Some r \<Rightarrow>
          (case shared_role (category item) of
             None \<Rightarrow> True
           | Some ro \<Rightarrow>
               fit item \<notin> set (avoid_list r ro) \<and>
               (case permitted_fit_list r ro of None \<Rightarrow> True | Some l \<Rightarrow> fit item \<in> set l) \<and>
               (case recommended_color_set r ro of
                  None \<Rightarrow> True | Some l \<Rightarrow> color item \<in> set l)) \<and>
          (case weight_role (category item) of
             None \<Rightarrow> True
           | Some ro \<Rightarrow>
               (case permitted_weight_set r ro of
                  None \<Rightarrow> True | Some l \<Rightarrow> weight item \<in> set l)))"

text \<open>As the specification states it: outerwear shares the top role in all four checks.\<close>

definition stated_body_type_keep :: "BodyType \<Rightarrow> ClothingItem \<Rightarrow> bool" where
  "stated_body_type_keep bt item = body_type_keep shared_role bt item"

text \<open>Amended: outerwear is exempt from the fabric-weight check.\<close>

definition amended_body_type_keep :: "BodyType \<Rightarrow> ClothingItem \<Rightarrow> bool" where
  "amended_body_type_keep bt item = body_type_keep role_without_outerwear bt item"

subsection \<open>Occasion filter\<close>

definition weather_ok :: "OccasionInfo \<Rightarrow> ClothingItem \<Rightarrow> bool" where
  "weather_ok occasion item =
     (\<not> (weather occasion = HOT \<and> weight item = ''heavy'') \<and>
      \<not> (weather occasion = COLD \<and> weight item = ''light''))"

definition business_top_ok :: "OccasionInfo \<Rightarrow> ClothingItem \<Rightarrow> bool" where
  "business_top_ok occasion item =
     (if occasion_type occasion = BUSINESS \<and> category item = TOP
      then subcategory item \<in> {''shirt'', ''blouse'', ''button-down''}
      else True)"

text \<open>
  The allowed-fits list of an occasion. Formal and glamorous have no table entry, hence no
  list: no fit is in it.
\<close>

definition allowed_fits_list :: "OccasionType \<Rightarrow> FitType list" where
  "allowed_fits_list ot =
     (case occasion_rules ot of
        None \<Rightarrow> []
      | Some r \<Rightarrow> (case allowed_fits r of None \<Rightarrow> [] | Some l \<Rightarrow> l))"

text \<open>As the specification states it.\<close>

definition stated_occasion_keep :: "OccasionInfo \<Rightarrow> ClothingItem \<Rightarrow> bool" where
  "stated_occasion_keep occasion item =
     (fit item \<in> set (allowed_fits_list (occasion_type occasion)) \<and>
      weather_ok occasion item \<and> business_top_ok occasion item)"

text \<open>Amended: the fit check applies only when the occasion has a table entry.\<close>

definition amended_occasion_keep :: "OccasionInfo \<Rightarrow> ClothingItem \<Rightarrow> bool" where
  "amended_occasion_keep occasion item =
     ((case occasion_rules (occasion_type occasion) of
         None \<Rightarrow> True
       | Some r \<Rightarrow> (case allowed_fits r of None \<Rightarrow> True | Some l \<Rightarrow> fit item \<in> set l)) \<and>
      weather_ok occasion item \<and> business_top_ok occasion item)"

subsection \<open>Style notes\<close>

definition body_type_note :: "BodyType \<Rightarrow> string list" where
  "body_type_note bt =
     (case bt of
        TRIANGLE \<Rightarrow>
          [''This outfit helps balance your proportions with emphasis on the upper body'']
      | INVERTED_TRIANGLE \<Rightarrow>
          [''This outfit creates balance by adding volume to the lower body'']
      | RECTANGLE \<Rightarrow>
          [''This outfit creates the illusion of curves with strategic tailoring'']
      | HOURGLASS \<Rightarrow> []
      | OVAL \<Rightarrow> [])"

definition color_note :: "ClothingItem list \<Rightarrow> string" where
  "color_note outfit =
     (if card (set (filter (\<lambda>c. c \<noteq> PATTERNED) (map color outfit))) \<le> 2
      then ''Monochromatic color scheme creates a sleek, elongated look''
      else ''Well-coordinated color palette with visual interest'')"

subsection \<open>Proportion score and heuristic score\<close>






text \<open>
  The heuristic score as the specification states it: the category sub-score looks at the
  number of distinct categories of the outfit.
\<close>

definition stated_heuristic_score :: "ClothingItem list \<Rightarrow> real" where
  "stated_heuristic_score outfit =
     fdiv
       (fadd
          (fadd (if card (set (map color outfit)) \<le> 2 then fl 0.9 else fl 0.7)
             (if card (set (map category outfit)) \<ge> 3 then fl 0.9 else fl 0.8))
          (if fsub (Max (set (map estimate_formality_level outfit)))
                (Min (set (map estimate_formality_level outfit))) < fl 0.3
           then fl 0.8 else fl 0.6))
       3"

subsection \<open>Generator\<close>

text \<open>The category buckets that \<open>generate_outfits\<close> computes from a request.\<close>

definition request_buckets :: "OutfitRequest \<Rightarrow> categorized" where
  "request_buckets request =
     categorize_items
       (filter_by_occasion
          (filter_by_body_type (inventory request) (body_type (user_info request)))
          (occasion_info request))"

text \<open>The structural invariant: a dress, or at least one top and at least one bottom.\<close>

definition has_required_categories :: "ClothingItem list \<Rightarrow> bool" where
  "has_required_categories its =
     ((\<exists>i\<in>set its. category i = DRESS) \<or>
      ((\<exists>i\<in>set its. category i = TOP) \<and> (\<exists>i\<in>set its. category i = BOTTOM)))"

section \<open>Example data\<close>

definition mk_item ::
  "string \<Rightarrow> ItemCategory \<Rightarrow> string \<Rightarrow> Color \<Rightarrow> string \<Rightarrow> FitType \<Rightarrow> ClothingItem" where
  "mk_item iid cat sub col w f =
     \<lparr>item_id = iid, category = cat, subcategory = sub, color = col, pattern = None,
      fabric = ''cotton'', weight = w, fit = f, brand = None, size_label = ''M'',
      attributes = [], image_url = None, created_at = 0\<rparr>"

definition mk_user :: "BodyType \<Rightarrow> UserInfo" where
  "mk_user bt =
     \<lparr>user_id = ''u1'', body_type = bt, skin_tone = Skin_MEDIUM, height_cm = 170,
      weight_kg = None, shoulder_cm = None, bust_cm = None, waist_cm = None, hip_cm = None,
      preferences = None\<rparr>"

definition mk_occasion :: "OccasionType \<Rightarrow> WeatherCondition \<Rightarrow> OccasionInfo" where
  "mk_occasion ot w =
     \<lparr>occasion_type = ot, weather = w, time_of_day = ''evening'', location = None,
      formality_level = 3\<rparr>"

definition mk_request ::
  "BodyType \<Rightarrow> OccasionType \<Rightarrow> ClothingItem list \<Rightarrow> int \<Rightarrow> OutfitRequest" where
  "mk_request bt ot invent m =
     \<lparr>user_info = mk_user bt, occasion_info = mk_occasion ot WARM, inventory = invent,
      max_outfits = m\<rparr>"

text \<open>A draw whose outcomes are all zero, and the random source that always returns it.\<close>

definition zero_draw :: draw where
  "zero_draw =
     \<lparr>u_dress = 0, k_dress = 0, k_top = 0, k_bottom = 0, u_outerwear = 0, k_outerwear = 0,
      k_shoes = 0, n_accessories = 0, k_sample = [], clock = 0\<rparr>"

definition zero_rnd :: "nat \<Rightarrow> draw" where
  "zero_rnd n = zero_draw"

definition heavy_coat :: ClothingItem where
  "heavy_coat = mk_item ''coat1'' OUTERWEAR ''coat'' RED ''heavy'' FITTED"

definition oversized_top :: ClothingItem where
  "oversized_top = mk_item ''top1'' TOP ''t-shirt'' WHITE ''medium'' OVERSIZED"

definition black_top :: ClothingItem where
  "black_top = mk_item ''top2'' TOP ''shirt'' BLACK ''medium'' FITTED"

definition black_bottom :: ClothingItem where
  "black_bottom = mk_item ''bottom1'' BOTTOM ''trousers'' BLACK ''heavy'' STRAIGHT"

definition black_shoes :: ClothingItem where
  "black_shoes = mk_item ''shoes1'' SHOES ''loafers'' BLACK ''medium'' FITTED"

text \<open>A request for one outfit from a top, a bottom and a pair of shoes.\<close>

definition one_outfit_request :: OutfitRequest where
  "one_outfit_request = mk_request HOURGLASS FORMAL [black_top, black_bottom, black_shoes] 1"

definition one_outfit :: Outfit where
  "one_outfit =
     \<lparr>outfit_id = ''outfit_1'', items = [black_top, black_bottom, black_shoes],
      outfit_occasion_type = FORMAL,
      compatibility_score = 4803839602528529 / 4503599627370496,
      style_notes = [''Monochromatic color scheme creates a sleek, elongated look''],
      outfit_created_at = 0\<rparr>"

text \<open>A dress with two accessories, and a draw that asks for two accessories.\<close>

definition black_dress :: ClothingItem where
  "black_dress = mk_item ''dress1'' DRESS ''gown'' BLACK ''medium'' FITTED"

definition belt :: ClothingItem where
  "belt = mk_item ''acc1'' ACCESSORY ''belt'' BLACK ''medium'' REGULAR"

definition scarf :: ClothingItem where
  "scarf = mk_item ''acc2'' ACCESSORY ''scarf'' BLACK ''medium'' REGULAR"

definition dress_buckets :: categorized where
  "dress_buckets =
     \<lparr>tops = [], bottoms = [], dresses = [black_dress], outerwear = [], shoes = [],
      accessories = [belt, scarf]\<rparr>"

definition two_accessories_draw :: draw where
  "two_accessories_draw = zero_draw\<lparr>n_accessories := 1\<rparr>"




section \<open>Properties\<close>

subsection \<open>Evaluation of float arithmetic\<close>

lemmas fl_eval = fl_def exponent_def pow2_def rne_def bitlen.simps
  fadd_def fsub_def fmul_def fdiv_def

text \<open>The binary64 values of the decimal literals of the source.\<close>

lemma float_literals:
  "fl 0.1 = 3602879701896397 / 36028797018963968"
  "fl 0.2 = 3602879701896397 / 18014398509481984"
  "fl 0.3 = 5404319552844595 / 18014398509481984"
  "fl 0.4 = 3602879701896397 / 9007199254740992"
  "fl 0.5 = 1 / 2"
  "fl 0.6 = 5404319552844595 / 9007199254740992"
  "fl 0.7 = 3152519739159347 / 4503599627370496"
  "fl 0.8 = 3602879701896397 / 4503599627370496"
  "fl 0.9 = 8106479329266893 / 9007199254740992"
  "fl 1.0 = 1"
  "fl 1.2 = 5404319552844595 / 4503599627370496"
  by (simp_all add: fl_eval)

subsection \<open>The filters as list filters\<close>

lemma fold_append_filter:
  "fold (\<lambda>x acc. if P x then acc @ [x] else acc) xs acc = acc @ filter P xs"
  by (induction xs arbitrary: acc) simp_all

lemma filter_by_body_type_filter:
  "filter_by_body_type items_in bt =
     filter (\<lambda>item. is_item_compatible item
        (case body_type_rules bt of None \<Rightarrow> empty_body_rules | Some r \<Rightarrow> r)) items_in"
  by (simp add: filter_by_body_type_def fold_append_filter)

lemma filter_by_occasion_filter:
  "filter_by_occasion items_in occasion =
     filter (\<lambda>item. is_item_occasion_compatible item
        (case occasion_rules (occasion_type occasion) of
           None \<Rightarrow> empty_occasion_rules | Some r \<Rightarrow> r) occasion) items_in"
  by (simp add: filter_by_occasion_def fold_append_filter)

lemma is_item_compatible_amended:
  "is_item_compatible item (case body_type_rules bt of None \<Rightarrow> empty_body_rules | Some r \<Rightarrow> r)
     = amended_body_type_keep bt item"
  by (cases bt; cases "category item")
     (simp_all add: is_item_compatible_def amended_body_type_keep_def body_type_keep_def
        empty_body_rules_def shared_role_def role_without_outerwear_def avoid_list_def
        permitted_fit_list_def recommended_color_set_def permitted_weight_set_def
        dict_get_def role_key_def)

lemma is_item_occasion_compatible_amended:
  "is_item_occasion_compatible item
     (case occasion_rules (occasion_type occasion) of
        None \<Rightarrow> empty_occasion_rules | Some r \<Rightarrow> r) occasion
     = amended_occasion_keep occasion item"
  by (cases "occasion_type occasion")
     (auto simp add: is_item_occasion_compatible_def amended_occasion_keep_def
        empty_occasion_rules_def weather_ok_def business_top_ok_def)

text \<open>
  C2, as stated, fails: an outerwear item whose fabric weight is outside the permitted set
  of the top role is kept, because the fabric-weight check of \<open>_is_item_compatible\<close>
  looks at tops and dresses only. For the triangle body type a heavy, fitted, red coat
  passes the filter, while the stated rule rejects it.
\<close>

theorem filter_by_body_type_outerwear_counterexample:
  "filter_by_body_type [heavy_coat] TRIANGLE
     \<noteq> filter (stated_body_type_keep TRIANGLE) [heavy_coat]"
  by (simp add: filter_by_body_type_filter is_item_compatible_def stated_body_type_keep_def
        body_type_keep_def heavy_coat_def mk_item_def shared_role_def avoid_list_def
        permitted_fit_list_def recommended_color_set_def permitted_weight_set_def
        dict_get_def role_key_def)

text \<open>
  C2, amended: \<open>filter_by_body_type\<close> keeps exactly the items that pass the avoid-list,
  permitted-fit and recommended-color checks for their role (top, dress and outerwear share
  the top role) and the fabric-weight check for their role, where for the fabric-weight
  check only top and dress have the top role and outerwear is exempt; shoes and accessories
  are always kept, and a body type without a table entry keeps every item. The result keeps
  the order of the input.
\<close>

theorem filter_by_body_type_amended:
  "filter_by_body_type items_in bt = filter (amended_body_type_keep bt) items_in"
  by (simp add: filter_by_body_type_filter is_item_compatible_amended)

theorem filter_by_body_type_amended_witness:
  "filter_by_body_type [heavy_coat, oversized_top] TRIANGLE = [heavy_coat]"
  using filter_by_body_type_amended [of "[heavy_coat, oversized_top]" TRIANGLE]
  by (simp add: amended_body_type_keep_def body_type_keep_def heavy_coat_def
        oversized_top_def mk_item_def shared_role_def role_without_outerwear_def
        avoid_list_def permitted_fit_list_def recommended_color_set_def
        permitted_weight_set_def dict_get_def role_key_def)

text \<open>
  C3, as stated, fails: for an occasion without a table entry (formal, glamorous) there is
  no allowed-fits list, and the filter applies no fit check at all. An oversized top is kept
  for a formal occasion.
\<close>

theorem filter_by_occasion_formal_counterexample:
  "filter_by_occasion [oversized_top] (mk_occasion FORMAL WARM)
     \<noteq> filter (stated_occasion_keep (mk_occasion FORMAL WARM)) [oversized_top]"
  by (simp add: filter_by_occasion_filter is_item_occasion_compatible_def
        stated_occasion_keep_def allowed_fits_list_def oversized_top_def mk_item_def
        mk_occasion_def empty_occasion_rules_def)

text \<open>
  C3, amended: \<open>filter_by_occasion\<close> keeps exactly the items whose fit is in the
  occasion's allowed-fits list when the occasion has a table entry (casual, business,
  party; formal and glamorous have none and impose no fit check), whose fabric weight is
  not heavy in hot weather and not light in cold weather, and, for the business occasion
  only, whose subcategory is one of "shirt", "blouse", "button-down" when the item is a
  top.
\<close>

theorem filter_by_occasion_amended:
  "filter_by_occasion items_in occasion = filter (amended_occasion_keep occasion) items_in"
  by (simp add: filter_by_occasion_filter is_item_occasion_compatible_amended)

theorem filter_by_occasion_amended_witness:
  "filter_by_occasion [heavy_coat, oversized_top] (mk_occasion BUSINESS WARM) = [heavy_coat]"
  using filter_by_occasion_amended [of "[heavy_coat, oversized_top]" "mk_occasion BUSINESS WARM"]
  by (simp add: amended_occasion_keep_def weather_ok_def business_top_ok_def heavy_coat_def
        oversized_top_def mk_item_def mk_occasion_def)

text \<open>
  C9: both filters are idempotent. Filtering the output of \<open>filter_by_body_type\<close> again
  with the same body type returns it unchanged, and likewise for \<open>filter_by_occasion\<close>
  with the same occasion.
\<close>

theorem filters_idempotent:
  "filter_by_body_type (filter_by_body_type items_in bt) bt = filter_by_body_type items_in bt \<and>
   filter_by_occasion (filter_by_occasion items_in occasion) occasion =
     filter_by_occasion items_in occasion"
  by (simp add: filter_by_body_type_filter filter_by_occasion_filter)

theorem filters_idempotent_witness:
  "filter_by_body_type (filter_by_body_type [heavy_coat, oversized_top] TRIANGLE) TRIANGLE
     = filter_by_body_type [heavy_coat, oversized_top] TRIANGLE \<and>
   filter_by_occasion (filter_by_occasion [heavy_coat, oversized_top]
       (mk_occasion BUSINESS WARM)) (mk_occasion BUSINESS WARM)
     = filter_by_occasion [heavy_coat, oversized_top] (mk_occasion BUSINESS WARM)"
  by (rule filters_idempotent)

subsection \<open>Style notes\<close>

lemma color_set_eq:
  "map color (filter (\<lambda>item. color item \<noteq> PATTERNED) outfit)
     = filter (\<lambda>c. c \<noteq> PATTERNED) (map color outfit)"
  by (simp add: filter_map comp_def)

text \<open>
  C10, as stated, fails: for the body types hourglass and oval the source appends no
  body-type note, so the list of notes has one element, not two.
\<close>

theorem generate_style_notes_hourglass_counterexample:
  "length (generate_style_notes [oversized_top] (mk_user HOURGLASS)) \<noteq> 2"
  by (simp add: generate_style_notes_def mk_user_def oversized_top_def mk_item_def)

text \<open>
  C10, amended: the style notes are the body-type note, which exists for triangle,
  inverted triangle and rectangle only, followed by one color-coordination note: the
  monochromatic text when the outfit has at most 2 distinct non-patterned colors, the
  coordinated-palette text otherwise. The list has two strings exactly for those three body
  types, and one string for hourglass and oval.
\<close>

theorem generate_style_notes_amended:
  "generate_style_notes outfit user = body_type_note (body_type user) @ [color_note outfit] \<and>
   (length (generate_style_notes outfit user) = 2
      \<longleftrightarrow> body_type user \<in> {TRIANGLE, INVERTED_TRIANGLE, RECTANGLE})"
  unfolding generate_style_notes_def color_note_def body_type_note_def Let_def color_set_eq
  by (cases "body_type user") simp_all

theorem generate_style_notes_amended_witness:
  "generate_style_notes [heavy_coat, oversized_top] (mk_user TRIANGLE) =
     [''This outfit helps balance your proportions with emphasis on the upper body'',
      ''Monochromatic color scheme creates a sleek, elongated look'']"
  using generate_style_notes_amended [of "[heavy_coat, oversized_top]" "mk_user TRIANGLE"]
  by (simp add: body_type_note_def color_note_def mk_user_def heavy_coat_def
        oversized_top_def mk_item_def)

subsection \<open>The generation loop\<close>

lemma ebind_simps [simp]:
  "ebind (Inr x) f = f x" "ebind (Inl e) f = Inl e"
  by (simp_all add: ebind_def)

lemma random_choice_ok: "xs \<noteq> [] \<Longrightarrow> random_choice xs k = Inr (xs ! (k mod length xs))"
  by (simp add: random_choice_def)

lemma random_sample_ok:
  "random_sample xs (min n (length xs)) ks = Inr (sample_pick xs (min n (length xs)) ks)"
  by (simp add: random_sample_def)

lemma create_candidate_outfit_ok: "\<exists>c. create_candidate_outfit cat user d = Inr c"
  by (simp add: create_candidate_outfit_def Let_def random_choice_ok random_sample_ok)

lemma create_candidate_outfit_none:
  "dresses cat = [] \<Longrightarrow> tops cat = [] \<or> bottoms cat = [] \<Longrightarrow>
   create_candidate_outfit cat user d = Inr None"
  by (auto simp add: create_candidate_outfit_def Let_def)

lemma predict_ml_compatibility_cases:
  "its \<noteq> [] \<Longrightarrow>
   \<exists>c\<in>{fl 0.9, fl 0.7}. \<exists>k\<in>{fl 0.9, fl 0.8}. \<exists>f\<in>{fl 0.8, fl 0.6}.
     predict_ml_compatibility its = Inr (fdiv (fadd (fadd c k) f) 3)"
  by (simp add: predict_ml_compatibility_def Let_def)

lemma predict_ml_compatibility_ok:
  "its \<noteq> [] \<Longrightarrow> \<exists>ml. predict_ml_compatibility its = Inr ml"
  using predict_ml_compatibility_cases [of its] by blast

lemma score_outfit_proportions_cases:
  "score_outfit_proportions outfit user \<in>
     {fl 1.0, fmul (fl 1.0) (fl 0.6), fmul (fl 1.0) (fl 1.2), fmul (fl 1.0) (fl 0.7),
      fmul (fmul (fl 1.0) (fl 0.7)) (fl 0.6), fmul (fmul (fl 1.0) (fl 0.7)) (fl 1.2)}"
  by (simp add: score_outfit_proportions_def Let_def)

text \<open>
  Every combination of a proportion score and a heuristic score, evaluated: first the
  weighted sums of the values that the two weighted scores can take, then those values.
\<close>

lemma weighted_sum_bounds:
  assumes "x \<in> {1134907106097365 / 4503599627370496,
      3242591731706757 / 9007199254740992,
      7566047373982433 / 18014398509481984,
      1134907106097365 / 2251799813685248,
      5404319552844595 / 9007199254740992,
      3242591731706757 / 4503599627370496}"
    and "y \<in> {1261007895663739 / 4503599627370496,
      5284223562781383 / 18014398509481984,
      172637985715869 / 562949953421312,
      5524415542907809 / 18014398509481984,
      5764607523034235 / 18014398509481984,
      1441151880758559 / 4503599627370496,
      3002399751580331 / 9007199254740992,
      390311967705443 / 1125899906842624}"
  shows "0 \<le> fadd x y \<and> fadd x y \<le> 16 / 15"
  using assms by (elim insertE emptyE; hypsubst; simp add: fl_eval)

lemma final_score_bounds:
  assumes "r \<in> {fl 1.0, fmul (fl 1.0) (fl 0.6), fmul (fl 1.0) (fl 1.2), fmul (fl 1.0) (fl 0.7),
      fmul (fmul (fl 1.0) (fl 0.7)) (fl 0.6), fmul (fmul (fl 1.0) (fl 0.7)) (fl 1.2)}"
    and "c \<in> {fl 0.9, fl 0.7}" and "k \<in> {fl 0.9, fl 0.8}" and "f \<in> {fl 0.8, fl 0.6}"
  shows "0 \<le> fadd (fmul (fl 0.6) r) (fmul (fl 0.4) (fdiv (fadd (fadd c k) f) 3)) \<and>
     fadd (fmul (fl 0.6) r) (fmul (fl 0.4) (fdiv (fadd (fadd c k) f) 3)) \<le> 16 / 15"
proof -
  have x: "fmul (fl 0.6) r \<in> {1134907106097365 / 4503599627370496,
      3242591731706757 / 9007199254740992,
      7566047373982433 / 18014398509481984,
      1134907106097365 / 2251799813685248,
      5404319552844595 / 9007199254740992,
      3242591731706757 / 4503599627370496}"
    using assms(1) by (elim insertE emptyE; hypsubst; simp add: fl_eval)
  have y: "fmul (fl 0.4) (fdiv (fadd (fadd c k) f) 3) \<in> {1261007895663739 / 4503599627370496,
      5284223562781383 / 18014398509481984,
      172637985715869 / 562949953421312,
      5524415542907809 / 18014398509481984,
      5764607523034235 / 18014398509481984,
      1441151880758559 / 4503599627370496,
      3002399751580331 / 9007199254740992,
      390311967705443 / 1125899906842624}"
    using assms(2-4) by (elim insertE emptyE; hypsubst; simp add: fl_eval)
  show ?thesis by (rule weighted_sum_bounds [OF x y])
qed

lemma generate_loop_exit:
  "\<not> (int (length outfits) < max_outfits request \<and> attempt < max_generation_attempts) \<Longrightarrow>
   generate_loop cat request rnd outfits attempt = Inr (outfits, attempt)"
  by (subst generate_loop.simps) auto

lemma generate_loop_skip:
  "int (length outfits) < max_outfits request \<Longrightarrow> attempt < max_generation_attempts \<Longrightarrow>
   create_candidate_outfit cat (user_info request) (rnd (attempt + 1)) = Inr c \<Longrightarrow>
   \<not> (c \<noteq> None \<and> the c \<noteq> [] \<and> is_valid_outfit (the c) request) \<Longrightarrow>
   generate_loop cat request rnd outfits attempt
     = generate_loop cat request rnd outfits (attempt + 1)"
  by (subst generate_loop.simps) (auto simp add: Let_def)

lemma generate_loop_add:
  "int (length outfits) < max_outfits request \<Longrightarrow> attempt < max_generation_attempts \<Longrightarrow>
   create_candidate_outfit cat (user_info request) (rnd (attempt + 1)) = Inr (Some cand) \<Longrightarrow>
   cand \<noteq> [] \<Longrightarrow> is_valid_outfit cand request \<Longrightarrow>
   predict_ml_compatibility (map item_to_dict cand) = Inr ml \<Longrightarrow>
   generate_loop cat request rnd outfits attempt
     = generate_loop cat request rnd
         (outfits @
           [\<lparr>outfit_id = ''outfit_'' @ str_of_nat (length outfits + 1),
             items = cand,
             outfit_occasion_type = occasion_type (occasion_info request),
             compatibility_score =
               fadd (fmul (fl 0.6) (score_outfit_proportions cand (user_info request))) (fmul (fl 0.4) ml),
             style_notes = generate_style_notes cand (user_info request),
             outfit_created_at = clock (rnd (attempt + 1))\<rparr>])
         (attempt + 1)"
  by (subst generate_loop.simps) (simp add: Let_def)

lemma generate_loop_invariant:
  assumes step: "\<And>cand ml oid notes t.
     cand \<noteq> [] \<Longrightarrow> is_valid_outfit cand request \<Longrightarrow>
     predict_ml_compatibility (map item_to_dict cand) = Inr ml \<Longrightarrow>
     Q \<lparr>outfit_id = oid, items = cand,
        outfit_occasion_type = occasion_type (occasion_info request),
        compatibility_score =
          fadd (fmul (fl 0.6) (score_outfit_proportions cand (user_info request))) (fmul (fl 0.4) ml),
        style_notes = notes, outfit_created_at = t\<rparr>"
  shows "(\<forall>x\<in>set outfits. Q x) \<Longrightarrow> int (length outfits) \<le> max 0 (max_outfits request) \<Longrightarrow>
     \<exists>outs n. generate_loop cat request rnd outfits attempt = Inr (outs, n) \<and>
       (\<forall>x\<in>set outs. Q x) \<and> int (length outs) \<le> max 0 (max_outfits request) \<and>
       n \<le> max attempt max_generation_attempts"
proof (induction k \<equiv> "max_generation_attempts - attempt" arbitrary: outfits attempt)
  case 0
  then have "\<not> (int (length outfits) < max_outfits request \<and> attempt < max_generation_attempts)"
    by simp
  from generate_loop_exit [OF this] "0.prems" show ?case by simp
next
  case (Suc k)
  show ?case
  proof (cases "int (length outfits) < max_outfits request \<and> attempt < max_generation_attempts")
    case False
    from generate_loop_exit [OF this] Suc.prems show ?thesis by simp
  next
    case True
    then have lt: "int (length outfits) < max_outfits request"
      and at: "attempt < max_generation_attempts" by simp_all
    have k: "k = max_generation_attempts - (attempt + 1)" using Suc.hyps(2) by simp
    obtain c where c: "create_candidate_outfit cat (user_info request) (rnd (attempt + 1)) = Inr c"
      using create_candidate_outfit_ok by blast
    show ?thesis
    proof (cases "c \<noteq> None \<and> the c \<noteq> [] \<and> is_valid_outfit (the c) request")
      case False
      have "\<exists>outs n. generate_loop cat request rnd outfits (attempt + 1) = Inr (outs, n) \<and>
          (\<forall>x\<in>set outs. Q x) \<and> int (length outs) \<le> max 0 (max_outfits request) \<and>
          n \<le> max (attempt + 1) max_generation_attempts"
        using Suc.hyps(1) [OF k] Suc.prems by blast
      with generate_loop_skip [where rnd = rnd and cat = cat, OF lt at c False] at show ?thesis by (simp add: max_def)
    next
      case True
      then obtain cand where cand: "c = Some cand" "cand \<noteq> []" "is_valid_outfit cand request"
        by auto
      obtain ml where ml: "predict_ml_compatibility (map item_to_dict cand) = Inr ml"
        using predict_ml_compatibility_ok [of "map item_to_dict cand"] cand(2) by auto
      let ?o = "\<lparr>outfit_id = ''outfit_'' @ str_of_nat (length outfits + 1),
             items = cand,
             outfit_occasion_type = occasion_type (occasion_info request),
             compatibility_score =
               fadd (fmul (fl 0.6) (score_outfit_proportions cand (user_info request))) (fmul (fl 0.4) ml),
             style_notes = generate_style_notes cand (user_info request),
             outfit_created_at = clock (rnd (attempt + 1))\<rparr>"
      have Qo: "Q ?o" using step [OF cand(2,3) ml] .
      have a: "\<forall>x\<in>set (outfits @ [?o]). Q x" using Suc.prems(1) Qo by simp
      have b: "int (length (outfits @ [?o])) \<le> max 0 (max_outfits request)" using lt by simp
      have "\<exists>outs n. generate_loop cat request rnd (outfits @ [?o]) (attempt + 1) = Inr (outs, n) \<and>
          (\<forall>x\<in>set outs. Q x) \<and> int (length outs) \<le> max 0 (max_outfits request) \<and>
          n \<le> max (attempt + 1) max_generation_attempts"
        using Suc.hyps(1) [OF k a b] .
      with generate_loop_add [where rnd = rnd and cat = cat, OF lt at c [unfolded cand(1)] cand(2,3) ml] at
      show ?thesis by (simp add: max_def)
    qed
  qed
qed

subsection \<open>Runs of the generator\<close>

lemma generate_outfits_eq:
  "generate_loop (request_buckets request) request rnd [] 0 = Inr (outs, n) \<Longrightarrow>
   generate_outfits request rnd =
     Inr (slice_to (sort_key (\<lambda>x. - compatibility_score x) outs) (max_outfits request))"
  by (simp add: generate_outfits_def request_buckets_def Let_def)

lemma set_slice_to: "set (slice_to xs m) \<subseteq> set xs"
  by (auto simp add: slice_to_def dest: in_set_takeD)

lemma slice_to_id: "int (length xs) \<le> max 0 m \<Longrightarrow> slice_to xs m = xs"
  by (auto simp add: slice_to_def max_def split: if_splits)

lemma is_valid_outfit_required: "is_valid_outfit cand request \<Longrightarrow> has_required_categories cand"
  unfolding is_valid_outfit_def has_required_categories_def Let_def image_iff
  by (simp split: if_splits) metis

lemma generate_loop_no_candidates:
  "dresses cat = [] \<Longrightarrow> tops cat = [] \<or> bottoms cat = [] \<Longrightarrow>
   attempt \<le> max_generation_attempts \<Longrightarrow>
   generate_loop cat request rnd [] attempt =
     Inr ([], if 0 < max_outfits request then max_generation_attempts else attempt)"
proof (induction k \<equiv> "max_generation_attempts - attempt" arbitrary: attempt)
  case 0
  then have "\<not> (int (length ([]::Outfit list)) < max_outfits request \<and> attempt < max_generation_attempts)"
    by simp
  from generate_loop_exit [OF this] 0 show ?case by simp
next
  case (Suc k)
  show ?case
  proof (cases "0 < max_outfits request")
    case False
    then have "\<not> (int (length ([]::Outfit list)) < max_outfits request \<and> attempt < max_generation_attempts)"
      by simp
    from generate_loop_exit [OF this] False show ?thesis by simp
  next
    case True
    have at: "attempt < max_generation_attempts" using Suc.hyps(2) by simp
    have k: "k = max_generation_attempts - (attempt + 1)" using Suc.hyps(2) by simp
    have c: "create_candidate_outfit cat (user_info request) (rnd (attempt + 1)) = Inr None"
      using create_candidate_outfit_none Suc.prems by blast
    have "generate_loop cat request rnd [] attempt = generate_loop cat request rnd [] (attempt + 1)"
      using generate_loop_skip [where rnd = rnd and cat = cat and outfits = "[]", OF _ at c] True by simp
    also have "\<dots> = Inr ([], if 0 < max_outfits request then max_generation_attempts else attempt + 1)"
      using Suc.hyps(1) [OF k] Suc.prems at by simp
    finally show ?thesis using True by simp
  qed
qed

lemma one_outfit_buckets:
  "request_buckets one_outfit_request =
     \<lparr>tops = [black_top], bottoms = [black_bottom], dresses = [], outerwear = [],
      shoes = [black_shoes], accessories = []\<rparr>"
  by (simp add: request_buckets_def one_outfit_request_def mk_request_def mk_user_def
        mk_occasion_def filter_by_body_type_filter filter_by_occasion_filter
        is_item_compatible_def is_item_occasion_compatible_def empty_body_rules_def
        empty_occasion_rules_def categorize_items_def black_top_def black_bottom_def
        black_shoes_def mk_item_def)

lemma one_outfit_candidate:
  "create_candidate_outfit (request_buckets one_outfit_request)
     (user_info one_outfit_request) (zero_rnd n)
     = Inr (Some [black_top, black_bottom, black_shoes])"
  by (simp add: one_outfit_buckets create_candidate_outfit_def zero_rnd_def zero_draw_def
        random_choice_def)

lemma one_outfit_valid:
  "is_valid_outfit [black_top, black_bottom, black_shoes] one_outfit_request"
  by (simp add: is_valid_outfit_def black_top_def black_bottom_def black_shoes_def mk_item_def)

lemma one_outfit_heuristic:
  "predict_ml_compatibility (map item_to_dict [black_top, black_bottom, black_shoes])
     = Inr (fdiv (fadd (fadd (fl 0.9) (fl 0.9)) (fl 0.8)) 3)"
  by (simp add: predict_ml_compatibility_def item_to_dict_def estimate_formality_level_def
        black_top_def black_bottom_def black_shoes_def mk_item_def Let_def)
     (simp add: fl_eval)

lemma one_outfit_proportions:
  "score_outfit_proportions [black_top, black_bottom, black_shoes]
     (user_info one_outfit_request) = fl 1.2"
  by (simp add: score_outfit_proportions_def outfit_elements_def truthy_def
        estimate_volume_def black_top_def black_bottom_def black_shoes_def mk_item_def
        card_insert_if Let_def)
     (simp add: fl_eval)

lemma one_outfit_notes:
  "generate_style_notes [black_top, black_bottom, black_shoes] (user_info one_outfit_request)
     = [''Monochromatic color scheme creates a sleek, elongated look'']"
  by (simp add: generate_style_notes_def one_outfit_request_def mk_request_def mk_user_def
        black_top_def black_bottom_def black_shoes_def mk_item_def)

lemma one_outfit_run:
  "generate_loop (request_buckets one_outfit_request) one_outfit_request zero_rnd [] 0
     = Inr ([one_outfit], 1)"
proof -
  have lt: "int (length ([]::Outfit list)) < max_outfits one_outfit_request"
    by (simp add: one_outfit_request_def mk_request_def)
  have at: "(0::nat) < max_generation_attempts" by (simp add: max_generation_attempts_def)
  have o: "\<lparr>outfit_id = ''outfit_'' @ str_of_nat (length ([]::Outfit list) + 1),
             items = [black_top, black_bottom, black_shoes],
             outfit_occasion_type = occasion_type (occasion_info one_outfit_request),
             compatibility_score =
               fadd
                 (fmul (fl 0.6)
                    (score_outfit_proportions [black_top, black_bottom, black_shoes]
                       (user_info one_outfit_request)))
                 (fmul (fl 0.4) (fdiv (fadd (fadd (fl 0.9) (fl 0.9)) (fl 0.8)) 3)),
             style_notes = generate_style_notes [black_top, black_bottom, black_shoes]
                 (user_info one_outfit_request),
             outfit_created_at = clock (zero_rnd (0 + 1))\<rparr> = one_outfit"
    unfolding one_outfit_proportions one_outfit_notes
    by (simp add: one_outfit_def str_of_nat.simps one_outfit_request_def mk_request_def
          mk_occasion_def zero_rnd_def zero_draw_def)
       (simp add: fl_eval)
  have "generate_loop (request_buckets one_outfit_request) one_outfit_request zero_rnd [] 0
      = generate_loop (request_buckets one_outfit_request) one_outfit_request zero_rnd
          ([] @ [one_outfit]) (0 + 1)"
    using generate_loop_add [where rnd = zero_rnd and cat = "request_buckets one_outfit_request",
        OF lt at one_outfit_candidate _ one_outfit_valid one_outfit_heuristic]
    unfolding o by simp
  also have "\<dots> = Inr ([one_outfit], 1)"
    by (subst generate_loop_exit) (simp_all add: one_outfit_request_def mk_request_def)
  finally show ?thesis .
qed

lemma one_outfit_result: "generate_outfits one_outfit_request zero_rnd = Inr [one_outfit]"
  using generate_outfits_eq [OF one_outfit_run]
  by (simp add: slice_to_def one_outfit_request_def mk_request_def)

text \<open>
  C1: for every request and every sequence of random choices, \<open>generate_outfits\<close>
  returns a list (it does not raise), and every outfit in it contains a dress, or at least
  one top and at least one bottom.
\<close>

theorem generate_outfits_structure:
  "\<exists>outs. generate_outfits request rnd = Inr outs \<and>
     (\<forall>x\<in>set outs. has_required_categories (items x))"
proof -
  have "\<exists>outs n. generate_loop (request_buckets request) request rnd [] 0 = Inr (outs, n) \<and>
       (\<forall>x\<in>set outs. has_required_categories (items x)) \<and>
       int (length outs) \<le> max 0 (max_outfits request) \<and> n \<le> max 0 max_generation_attempts"
    by (rule generate_loop_invariant) (simp_all add: is_valid_outfit_required)
  then obtain outs n where
    run: "generate_loop (request_buckets request) request rnd [] 0 = Inr (outs, n)"
    and ok: "\<forall>x\<in>set outs. has_required_categories (items x)" by blast
  show ?thesis
    using generate_outfits_eq [OF run] ok set_slice_to [of "sort_key (\<lambda>x. - compatibility_score x) outs"]
    by auto
qed

theorem generate_outfits_structure_witness:
  "generate_outfits one_outfit_request zero_rnd = Inr [one_outfit] \<and>
   has_required_categories (items one_outfit)"
  using generate_outfits_structure [of one_outfit_request zero_rnd] one_outfit_result by simp

text \<open>
  C6, as stated, fails: the length of the result is not at most \<open>max_outfits\<close> when
  \<open>max_outfits\<close> is negative. The field is an unconstrained integer; for \<open>-1\<close> the
  loop never runs and the result is the empty list, whose length 0 exceeds \<open>-1\<close>.
\<close>

theorem generate_outfits_negative_max_counterexample:
  "generate_outfits (mk_request HOURGLASS FORMAL [black_top, black_bottom] (- 1)) zero_rnd = Inr [] \<and>
   \<not> int (length ([]::Outfit list))
       \<le> max_outfits (mk_request HOURGLASS FORMAL [black_top, black_bottom] (- 1))"
proof -
  have "generate_loop (request_buckets (mk_request HOURGLASS FORMAL [black_top, black_bottom] (- 1)))
      (mk_request HOURGLASS FORMAL [black_top, black_bottom] (- 1)) zero_rnd [] 0 = Inr ([], 0)"
    by (subst generate_loop_exit) (simp_all add: mk_request_def)
  from generate_outfits_eq [OF this] show ?thesis by (simp add: slice_to_def mk_request_def)
qed

text \<open>
  C6, amended: for every request and every sequence of random choices, the list returned by
  \<open>generate_outfits\<close> is sorted by compatibility score in descending order, the outfits
  of any one score appear in the order in which the loop generated them (the sort is
  stable), and the length of the list is at most \<open>max_outfits\<close> when that is not
  negative, and 0 otherwise. Here \<open>outs\<close> is the list collected by the loop, in
  generation order.
\<close>

theorem generate_outfits_ranking:
  "\<exists>outs n res.
     generate_loop (request_buckets request) request rnd [] 0 = Inr (outs, n) \<and>
     generate_outfits request rnd = Inr res \<and>
     sorted_wrt (\<lambda>a b. compatibility_score a \<ge> compatibility_score b) res \<and>
     (\<forall>s. filter (\<lambda>x. compatibility_score x = s) res = filter (\<lambda>x. compatibility_score x = s) outs) \<and>
     int (length res) \<le> max 0 (max_outfits request)"
proof -
  have "\<exists>outs n. generate_loop (request_buckets request) request rnd [] 0 = Inr (outs, n) \<and>
       (\<forall>x\<in>set outs. True) \<and>
       int (length outs) \<le> max 0 (max_outfits request) \<and> n \<le> max 0 max_generation_attempts"
    by (rule generate_loop_invariant) simp_all
  then obtain outs n where
    run: "generate_loop (request_buckets request) request rnd [] 0 = Inr (outs, n)"
    and len: "int (length outs) \<le> max 0 (max_outfits request)" by blast
  let ?res = "sort_key (\<lambda>x. - compatibility_score x) outs"
  have res: "generate_outfits request rnd = Inr ?res"
    using generate_outfits_eq [OF run] slice_to_id [of ?res "max_outfits request"] len by simp
  have "sorted (map (\<lambda>x. - compatibility_score x) ?res)" by (rule sorted_sort_key)
  then have srt: "sorted_wrt (\<lambda>a b. compatibility_score a \<ge> compatibility_score b) ?res"
    by (simp add: sorted_wrt_map)
  have stable: "filter (\<lambda>x. compatibility_score x = s) ?res = filter (\<lambda>x. compatibility_score x = s) outs" for s
    using sort_key_stable [of "\<lambda>x. - compatibility_score x" "- s" outs] by simp
  show ?thesis using run res srt stable len by auto
qed

theorem generate_outfits_ranking_witness:
  "generate_outfits one_outfit_request zero_rnd = Inr [one_outfit] \<and>
   int (length [one_outfit]) \<le> max 0 (max_outfits one_outfit_request)"
  using generate_outfits_ranking [of one_outfit_request zero_rnd] one_outfit_result by auto

text \<open>
  C7: when the top, bottom and dress buckets of the filtered inventory are all empty,
  \<open>generate_outfits\<close> returns the empty list without raising, for every sequence of
  random choices, and the loop stops after exactly 1000 attempts when \<open>max_outfits\<close> is
  positive and after none otherwise; in both cases after at most 1000.
\<close>

theorem generate_outfits_empty_buckets:
  assumes "tops (request_buckets request) = []" and "bottoms (request_buckets request) = []"
    and "dresses (request_buckets request) = []"
  shows "generate_outfits request rnd = Inr [] \<and>
     generate_loop (request_buckets request) request rnd [] 0 =
       Inr ([], if 0 < max_outfits request then 1000 else 0)"
proof -
  have run: "generate_loop (request_buckets request) request rnd [] 0 =
       Inr ([], if 0 < max_outfits request then 1000 else 0)"
    using generate_loop_no_candidates [of "request_buckets request" 0 request rnd] assms
    by (simp add: max_generation_attempts_def)
  show ?thesis using generate_outfits_eq [OF run] run by (simp add: slice_to_def)
qed

theorem generate_outfits_empty_buckets_witness:
  "generate_outfits (mk_request TRIANGLE CASUAL [oversized_top] 5) zero_rnd = Inr [] \<and>
   generate_loop (request_buckets (mk_request TRIANGLE CASUAL [oversized_top] 5))
     (mk_request TRIANGLE CASUAL [oversized_top] 5) zero_rnd [] 0 = Inr ([], 1000)"
proof -
  have b: "request_buckets (mk_request TRIANGLE CASUAL [oversized_top] 5) =
     \<lparr>tops = [], bottoms = [], dresses = [], outerwear = [], shoes = [], accessories = []\<rparr>"
    by (simp add: request_buckets_def mk_request_def mk_user_def mk_occasion_def
        filter_by_body_type_filter filter_by_occasion_filter is_item_compatible_def
        categorize_items_def oversized_top_def mk_item_def dict_get_def)
  have t: "tops (request_buckets (mk_request TRIANGLE CASUAL [oversized_top] 5)) = []"
    and bt: "bottoms (request_buckets (mk_request TRIANGLE CASUAL [oversized_top] 5)) = []"
    and d: "dresses (request_buckets (mk_request TRIANGLE CASUAL [oversized_top] 5)) = []"
    by (simp_all add: b)
  from generate_outfits_empty_buckets [OF t bt d, of zero_rnd]
  show ?thesis by (simp add: mk_request_def)
qed

text \<open>
  C8: every returned outfit has the compatibility score
  \<open>0.6 * rule_score + 0.4 * heuristic_score\<close> of its items, computed in float
  arithmetic, and that score is at least 0 and at most 16/15.
\<close>

theorem generate_outfits_score_bounds:
  "\<exists>outs. generate_outfits request rnd = Inr outs \<and>
     (\<forall>x\<in>set outs.
        (\<exists>ml. predict_ml_compatibility (map item_to_dict (items x)) = Inr ml \<and>
           compatibility_score x =
             fadd (fmul (fl 0.6) (score_outfit_proportions (items x) (user_info request)))
               (fmul (fl 0.4) ml)) \<and>
        0 \<le> compatibility_score x \<and> compatibility_score x \<le> 16 / 15)"
proof -
  let ?Q = "\<lambda>x. (\<exists>ml. predict_ml_compatibility (map item_to_dict (items x)) = Inr ml \<and>
           compatibility_score x =
             fadd (fmul (fl 0.6) (score_outfit_proportions (items x) (user_info request)))
               (fmul (fl 0.4) ml)) \<and>
        0 \<le> compatibility_score x \<and> compatibility_score x \<le> 16 / 15"
  have step: "?Q \<lparr>outfit_id = oid, items = cand,
        outfit_occasion_type = occasion_type (occasion_info request),
        compatibility_score =
          fadd (fmul (fl 0.6) (score_outfit_proportions cand (user_info request)))
            (fmul (fl 0.4) ml),
        style_notes = nts, outfit_created_at = t\<rparr>"
    if "cand \<noteq> []" and ml: "predict_ml_compatibility (map item_to_dict cand) = Inr ml"
    for cand ml oid nts t
  proof -
    from predict_ml_compatibility_cases [of "map item_to_dict cand"] that
    obtain c k f where ckf: "c \<in> {fl 0.9, fl 0.7}" "k \<in> {fl 0.9, fl 0.8}" "f \<in> {fl 0.8, fl 0.6}"
      and m: "ml = fdiv (fadd (fadd c k) f) 3" by auto
    from final_score_bounds [OF score_outfit_proportions_cases [of cand "user_info request"] ckf]
    show ?thesis using ml unfolding m by simp
  qed
  have "\<exists>outs n. generate_loop (request_buckets request) request rnd [] 0 = Inr (outs, n) \<and>
       (\<forall>x\<in>set outs. ?Q x) \<and>
       int (length outs) \<le> max 0 (max_outfits request) \<and> n \<le> max 0 max_generation_attempts"
    by (rule generate_loop_invariant) (use step in simp_all)
  then obtain outs n where
    run: "generate_loop (request_buckets request) request rnd [] 0 = Inr (outs, n)"
    and ok: "\<forall>x\<in>set outs. ?Q x" by blast
  show ?thesis
    using generate_outfits_eq [OF run] ok set_slice_to [of "sort_key (\<lambda>x. - compatibility_score x) outs"]
    by auto
qed

theorem generate_outfits_score_bounds_witness:
  "generate_outfits one_outfit_request zero_rnd = Inr [one_outfit] \<and>
   0 \<le> compatibility_score one_outfit \<and> compatibility_score one_outfit \<le> 16 / 15"
  using generate_outfits_score_bounds [of one_outfit_request zero_rnd] one_outfit_result by simp

subsection \<open>Proportion score and heuristic score\<close>











text \<open>
  The comparison that rounding decides: the float difference of \<open>0.5 + 0.3\<close> and
  \<open>0.5\<close> exceeds the float \<open>0.3\<close>, which the difference of the decimal numbers does
  not.
\<close>

lemma volume_difference_rounds_up:
  "\<bar>fsub (fadd (fl 0.5) (fl 0.3)) (fl 0.5)\<bar> > fl 0.3"
  "\<not> \<bar>(0.5 + 0.3) - 0.5\<bar> > (0.3 :: real)"
  by (simp_all add: fl_eval)





text \<open>
  C5: the source diverges from the claim. \<open>_predict_ml_compatibility\<close> gives the
  category sub-score 0.9 when the outfit has at least 3 items, not at least 3 categories:
  it takes the length of the list of the items' categories, duplicates included. A dress
  with two accessories, which \<open>_create_candidate_outfit\<close> can produce, has 2 categories
  and gets the heuristic score \<open>(0.9 + 0.9 + 0.6) / 3\<close>, where the claim gives
  \<open>(0.9 + 0.8 + 0.6) / 3\<close>, both in float arithmetic.
\<close>

theorem heuristic_counts_items:
  "create_candidate_outfit dress_buckets (mk_user HOURGLASS) two_accessories_draw
     = Inr (Some [black_dress, belt, scarf]) \<and>
   card (set (map category [black_dress, belt, scarf])) = 2 \<and>
   predict_ml_compatibility (map item_to_dict [black_dress, belt, scarf])
     = Inr (fdiv (fadd (fadd (fl 0.9) (fl 0.9)) (fl 0.6)) 3) \<and>
   stated_heuristic_score [black_dress, belt, scarf]
     = fdiv (fadd (fadd (fl 0.9) (fl 0.8)) (fl 0.6)) 3 \<and>
   predict_ml_compatibility (map item_to_dict [black_dress, belt, scarf])
     \<noteq> Inr (stated_heuristic_score [black_dress, belt, scarf])"
  by (simp add: create_candidate_outfit_def dress_buckets_def two_accessories_draw_def
        zero_draw_def random_choice_def random_sample_def random_randint_def ebind_def
        predict_ml_compatibility_def item_to_dict_def estimate_formality_level_def
        stated_heuristic_score_def black_dress_def belt_def scarf_def mk_item_def
        card_insert_if numeral_2_eq_2 Let_def)
     (simp add: fl_eval)

end
